theory Spec2Isabelle
  imports Complex_Main "HOL-Library.Sublist"
begin

section \<open>Strings\<close>

text \<open>
  A JavaScript string is modelled by the list of its characters, as far as the
  type \<open>char\<close> has them (the codes below 256). The patterns the code searches for
  are ASCII, and \<open>String.prototype.includes\<close> is the contiguous sublist test.
  \<open>toLowerCase\<close> is modelled on the letters A to Z; the characters beyond
  ASCII, which JavaScript lower-cases as well, never yield one of the patterns
  searched for below and are left as they are.
\<close>

definition str_includes :: "string \<Rightarrow> string \<Rightarrow> bool" where
  "str_includes s pat = sublist pat s"

definition lower_char :: "char \<Rightarrow> char" where
  "lower_char c =
     (case map_of (zip ''ABCDEFGHIJKLMNOPQRSTUVWXYZ'' ''abcdefghijklmnopqrstuvwxyz'') c of
        Some d \<Rightarrow> d
      | None \<Rightarrow> c)"

definition toLowerCase :: "string \<Rightarrow> string" where
  "toLowerCase s = map lower_char s"

section \<open>JavaScript values\<close>

text \<open>
  \<open>JSON.parse\<close> returns an untyped value, and the type annotations of the source
  are erased before it runs: the \<open>count\<close> read from the slot, the local
  \<open>currentCount\<close> and the state cell \<open>usageCount\<close> can hold any JavaScript value.
  A number is not-a-number, an infinity, or finite; a finite number is modelled
  by its exact rational value, which is what the code computes as long as the
  IEEE double arithmetic does not round (so on all integers below \<open>2 ^ 53\<close>).
  An array or a plain object is identified with the string its \<open>toString\<close> gives
  (\<open>[object Object]\<close>, or the elements joined by commas), which is all that
  addition and comparison use of it.
\<close>

datatype jsnum = NaN | PosInf | NegInf | Fin rat

datatype jsval = VUndefined | VNull | VBool bool | VNumber jsnum | VString string
  | VObject string

definition js_int :: "int \<Rightarrow> jsval" where
  "js_int n = VNumber (Fin (of_int n))"

subsection \<open>StringToNumber\<close>

text \<open>
  The conversion of a string to a number, after the grammar StringNumericLiteral
  of the language standard: white space is trimmed; the empty string is 0; then
  come a hexadecimal, octal or binary literal without sign, or a decimal literal
  with an optional sign, which is \<open>Infinity\<close> or digits with an optional fraction
  and an optional exponent; everything else is not-a-number. Of the white space
  characters of the standard, those with a code below 256 are there.
\<close>

definition is_StrWhiteSpaceChar :: "char \<Rightarrow> bool" where
  "is_StrWhiteSpaceChar c =
     (c \<in> set [CHR 0x09, CHR 0x0A, CHR 0x0B, CHR 0x0C, CHR 0x0D, CHR 0x20, CHR 0xA0])"

definition trim_StrWhiteSpace :: "string \<Rightarrow> string" where
  "trim_StrWhiteSpace s =
     rev (dropWhile is_StrWhiteSpaceChar (rev (dropWhile is_StrWhiteSpaceChar s)))"

definition digit_value :: "char \<Rightarrow> nat option" where
  "digit_value c =
     map_of (zip ''0123456789abcdef'' [0..<16] @ zip ''ABCDEF'' [10..<16]) c"

text \<open>The value of a string of digits in a radix, if all of them are digits of it.\<close>

fun digits_value :: "nat \<Rightarrow> string \<Rightarrow> nat \<Rightarrow> nat option" where
  "digits_value radix [] acc = Some acc"
| "digits_value radix (c # cs) acc =
     (case digit_value c of
        None \<Rightarrow> None
      | Some d \<Rightarrow> if d < radix then digits_value radix cs (acc * radix + d) else None)"

definition digits_literal :: "nat \<Rightarrow> string \<Rightarrow> nat option" where
  "digits_literal radix ds = (if ds = [] then None else digits_value radix ds 0)"

definition radix_literal :: "nat \<Rightarrow> string \<Rightarrow> jsnum" where
  "radix_literal radix ds =
     (case digits_literal radix ds of None \<Rightarrow> NaN | Some v \<Rightarrow> Fin (of_nat v))"

definition is_DecimalDigit :: "char \<Rightarrow> bool" where
  "is_DecimalDigit c = (c \<in> set ''0123456789'')"

text \<open>The factor of an exponent part; an absent exponent part has factor 1.\<close>

definition ExponentPart :: "string \<Rightarrow> rat option" where
  "ExponentPart s =
     (case s of
        [] \<Rightarrow> Some 1
      | c # r \<Rightarrow>
          if c = CHR ''e'' \<or> c = CHR ''E'' then
            (case r of
               [] \<Rightarrow> None
             | d # r' \<Rightarrow>
                 if d = CHR ''-'' then map_option (\<lambda>n. 1 / 10 ^ n) (digits_literal 10 r')
                 else if d = CHR ''+'' then map_option (\<lambda>n. 10 ^ n) (digits_literal 10 r')
                 else map_option (\<lambda>n. 10 ^ n) (digits_literal 10 r))
          else None)"

definition StrUnsignedDecimalLiteral :: "string \<Rightarrow> jsnum" where
  "StrUnsignedDecimalLiteral s =
     (if s = ''Infinity'' then PosInf
      else
        let ip = takeWhile is_DecimalDigit s;
            r1 = dropWhile is_DecimalDigit s;
            dot = (r1 \<noteq> [] \<and> hd r1 = CHR ''.'');
            fp = (if dot then takeWhile is_DecimalDigit (tl r1) else []);
            r2 = (if dot then dropWhile is_DecimalDigit (tl r1) else r1)
        in if ip = [] \<and> fp = [] then NaN
           else (case (digits_value 10 ip 0, digits_value 10 fp 0, ExponentPart r2) of
                   (Some i, Some f, Some e) \<Rightarrow>
                     Fin ((of_nat i + of_nat f / 10 ^ length fp) * e)
                 | _ \<Rightarrow> NaN))"

definition negate :: "jsnum \<Rightarrow> jsnum" where
  "negate n =
     (case n of NaN \<Rightarrow> NaN | PosInf \<Rightarrow> NegInf | NegInf \<Rightarrow> PosInf | Fin q \<Rightarrow> Fin (- q))"

definition StringToNumber :: "string \<Rightarrow> jsnum" where
  "StringToNumber s =
     (let t = trim_StrWhiteSpace s
      in case t of
           [] \<Rightarrow> Fin 0
         | c # r \<Rightarrow>
             if c = CHR ''0'' \<and> r \<noteq> [] \<and> hd r \<in> set ''xX'' then radix_literal 16 (tl r)
             else if c = CHR ''0'' \<and> r \<noteq> [] \<and> hd r \<in> set ''oO'' then radix_literal 8 (tl r)
             else if c = CHR ''0'' \<and> r \<noteq> [] \<and> hd r \<in> set ''bB'' then radix_literal 2 (tl r)
             else if c = CHR ''-'' then negate (StrUnsignedDecimalLiteral r)
             else if c = CHR ''+'' then StrUnsignedDecimalLiteral r
             else StrUnsignedDecimalLiteral t)"

subsection \<open>The operators the counter goes through\<close>

definition ToNumber :: "jsval \<Rightarrow> jsnum" where
  "ToNumber v =
     (case v of
        VUndefined \<Rightarrow> NaN
      | VNull \<Rightarrow> Fin 0
      | VBool b \<Rightarrow> Fin (if b then 1 else 0)
      | VNumber n \<Rightarrow> n
      | VString s \<Rightarrow> StringToNumber s
      | VObject s \<Rightarrow> StringToNumber s)"

text \<open>\<open>v >= limit\<close> for a number \<open>limit\<close>: false when \<open>v\<close> converts to not-a-number.\<close>

definition js_ge :: "jsval \<Rightarrow> rat \<Rightarrow> bool" where
  "js_ge v limit =
     (case ToNumber v of
        NaN \<Rightarrow> False
      | PosInf \<Rightarrow> True
      | NegInf \<Rightarrow> False
      | Fin q \<Rightarrow> limit \<le> q)"

definition num_add :: "jsnum \<Rightarrow> rat \<Rightarrow> jsnum" where
  "num_add n r = (case n of Fin q \<Rightarrow> Fin (q + r) | _ \<Rightarrow> n)"

text \<open>
  \<open>v + 1\<close>: a string, and an array or object through its string, is concatenated
  with \<open>1\<close>; every other value is converted to a number and incremented.
\<close>

definition js_plus_one :: "jsval \<Rightarrow> jsval" where
  "js_plus_one v =
     (case v of
        VString s \<Rightarrow> VString (s @ ''1'')
      | VObject s \<Rightarrow> VString (s @ ''1'')
      | _ \<Rightarrow> VNumber (num_add (ToNumber v) 1))"

text \<open>\<open>v - 1\<close> is always numeric.\<close>

definition js_minus_one :: "jsval \<Rightarrow> jsval" where
  "js_minus_one v = VNumber (num_add (ToNumber v) (- 1))"

text \<open>
  What \<open>JSON.parse\<close> reads back as \<open>count\<close> from the text
  \<open>JSON.stringify({ date: today, count: v })\<close>: not-a-number and the infinities
  are written as null, an undefined property is left out, everything else
  comes back as it was.
\<close>

definition JSON_roundtrip :: "jsval \<Rightarrow> jsval" where
  "JSON_roundtrip v =
     (case v of
        VNumber (Fin q) \<Rightarrow> VNumber (Fin q)
      | VNumber _ \<Rightarrow> VNull
      | _ \<Rightarrow> v)"

section \<open>The daily usage counter of the application component\<close>

text \<open>
  The slot \<open>logoConceptUsage\<close> of localStorage holds a text or nothing. The code
  only ever looks at the text through \<open>JSON.parse\<close> and the destructuring
  \<open>const { date, count } = ...\<close>, so the model identifies a text with what these two
  steps make of it:
  \<^item> \<open>Absent\<close>: \<open>getItem\<close> returns null;
  \<^item> \<open>EmptyText\<close>: the empty string, which is falsy, so it is never parsed;
  \<^item> \<open>Unparseable\<close>: a text on which \<open>JSON.parse\<close> throws a SyntaxError;
  \<^item> \<open>JsonNull\<close>: the text parses to null, and destructuring null throws a TypeError;
  \<^item> \<open>NoUsage\<close>: the text parses to a value whose \<open>date\<close> property is not a string
    (a number, a string, an array, an object without it), so that \<open>date === today\<close>
    is false whatever the day is and \<open>count\<close> is never used;
  \<^item> \<open>Usage d v\<close>: the text parses to an object with the string \<open>d\<close> as \<open>date\<close> and
    the value \<open>v\<close> as \<open>count\<close>, \<open>VUndefined\<close> when it has no such property.
    \<open>JSON.stringify({ date: today, count: newCount })\<close> writes such a text.
\<close>

datatype slot = Absent | EmptyText | Unparseable | JsonNull | NoUsage | Usage string jsval

datatype js_error = SyntaxError | TypeError

text \<open>The state of the component: its \<open>useState\<close> cells and the storage slot.\<close>

record app_state =
  apiKey :: string
  prompt :: string
  generatedConcept :: "string option"
  isLoading :: bool
  error :: "string option"
  usageCount :: jsval
  localStorage :: slot

definition DAILY_LIMIT :: rat where
  "DAILY_LIMIT = 5"

definition limit_message :: string where
  "limit_message = ''You have reached your daily limit of 5 logo concepts.''"

text \<open>The state after the first render: the initial values given to \<open>useState\<close>.\<close>

definition initial_state :: "slot \<Rightarrow> app_state" where
  "initial_state stored =
     \<lparr>apiKey = [],
      prompt = ''A dynamic and modern logo for a channel named '' @ [CHR 0x22] @ ''kaar''
        @ [CHR 0x22] @ '', featuring a stylized letter K.'',
      generatedConcept = None, isLoading = False, error = None, usageCount = js_int 0,
      localStorage = stored\<rparr>"

text \<open>
  The body of the \<open>try\<close> block of the mount effect: either it throws, or it returns
  the state it leaves. The \<open>catch\<close> removes the slot.
\<close>

fun loadUsage_try :: "string \<Rightarrow> app_state \<Rightarrow> js_error + app_state" where
  "loadUsage_try today st =
     (case localStorage st of
        Absent \<Rightarrow> Inr st
      | EmptyText \<Rightarrow> Inr st
      | Unparseable \<Rightarrow> Inl SyntaxError
      | JsonNull \<Rightarrow> Inl TypeError
      | NoUsage \<Rightarrow> Inr (st\<lparr>localStorage := Absent\<rparr>)
      | Usage d v \<Rightarrow>
          if d = today then Inr (st\<lparr>usageCount := v\<rparr>)
          else Inr (st\<lparr>localStorage := Absent\<rparr>))"

definition loadUsage :: "string \<Rightarrow> app_state \<Rightarrow> app_state" where
  "loadUsage today st =
     (case loadUsage_try today st of
        Inr st' \<Rightarrow> st'
      | Inl e \<Rightarrow> st\<lparr>localStorage := Absent\<rparr>)"

text \<open>
  The \<open>try\<close> block of \<open>checkAndRecordUsage\<close>: the value of \<open>currentCount\<close> when the
  block is left normally, or the exception.
\<close>

fun stored_count :: "string \<Rightarrow> slot \<Rightarrow> js_error + jsval" where
  "stored_count today Absent = Inr (js_int 0)"
| "stored_count today EmptyText = Inr (js_int 0)"
| "stored_count today Unparseable = Inl SyntaxError"
| "stored_count today JsonNull = Inl TypeError"
| "stored_count today NoUsage = Inr (js_int 0)"
| "stored_count today (Usage d v) = Inr (if d = today then v else js_int 0)"

text \<open>
  \<open>checkAndRecordUsage\<close> reads the clock once (\<open>today\<close>), returns the boolean and
  leaves the new state.
\<close>

definition checkAndRecordUsage :: "string \<Rightarrow> app_state \<Rightarrow> bool \<times> app_state" where
  "checkAndRecordUsage today st =
     (let currentCount = (case stored_count today (localStorage st) of
                            Inr c \<Rightarrow> c
                          | Inl e \<Rightarrow> js_int 0)
      in if js_ge currentCount DAILY_LIMIT
         then (False, st\<lparr>error := Some limit_message\<rparr>)
         else let newCount = js_plus_one currentCount
              in (True, st\<lparr>usageCount := newCount,
                          localStorage := Usage today (JSON_roundtrip newCount)\<rparr>))"

text \<open>\<open>n\<close> calls one after the other on the same day, with the booleans they return.\<close>

fun reservations :: "nat \<Rightarrow> string \<Rightarrow> app_state \<Rightarrow> bool list \<times> app_state" where
  "reservations 0 today st = ([], st)"
| "reservations (Suc n) today st =
     (case checkAndRecordUsage today st of
        (r, st') \<Rightarrow> (case reservations n today st' of (rs, st'') \<Rightarrow> (r # rs, st'')))"

section \<open>The generation calls\<close>

text \<open>
  What a call of the provider's library does is not part of the repository: it is
  a parameter, either the value thrown or the response. A thrown value is an
  \<open>Error\<close> instance, another object with a \<open>message\<close> property, a string, or
  anything else.
\<close>

datatype thrown = ErrorInstance string | ObjectWithMessage string | ThrownString string
  | ThrownOther

definition missing_key_message :: string where
  "missing_key_message = ''API Key is missing. Please provide a valid Gemini API Key.''"

definition quota_message :: string where
  "quota_message =
     ''You have exceeded your API quota. Please check your usage limits in Google Cloud.''"

subsection \<open>generateLogoConcept (services/geminiService.ts)\<close>

definition concept_invalid_key_message :: string where
  "concept_invalid_key_message =
     ''The API key is not valid. Please check your key and its permissions.''"

definition no_concept_message :: string where
  "no_concept_message =
     ''No concept was generated. The response might have been empty or blocked.''"

text \<open>The \<open>try\<close> block: \<open>response.text\<close> is returned when it is truthy.\<close>

definition concept_try :: "thrown + string option \<Rightarrow> thrown + string" where
  "concept_try outcome =
     (case outcome of
        Inl e \<Rightarrow> Inl e
      | Inr None \<Rightarrow> Inl (ErrorInstance no_concept_message)
      | Inr (Some t) \<Rightarrow> if t \<noteq> [] then Inr t else Inl (ErrorInstance no_concept_message))"

text \<open>The \<open>catch\<close> block: first the message is extracted, then it is matched.\<close>

definition concept_errorMessage :: "thrown \<Rightarrow> string" where
  "concept_errorMessage e =
     (case e of
        ErrorInstance m \<Rightarrow> m
      | _ \<Rightarrow> ''An unknown error occurred. Check the developer console for details.'')"

definition concept_rethrow :: "string \<Rightarrow> string" where
  "concept_rethrow errorMessage =
     (if str_includes errorMessage ''API key not valid'' then concept_invalid_key_message
      else if str_includes (toLowerCase errorMessage) ''quota'' then quota_message
      else ''Failed to generate concept: '' @ errorMessage)"

text \<open>The result is the message of the \<open>Error\<close> thrown (\<open>Inl\<close>) or the concept.\<close>

definition generateLogoConcept ::
    "string \<Rightarrow> string \<Rightarrow> thrown + string option \<Rightarrow> string + string" where
  "generateLogoConcept prompt_text key outcome =
     (if key = [] then Inl missing_key_message
      else case concept_try outcome of
             Inr t \<Rightarrow> Inr t
           | Inl e \<Rightarrow> Inl (concept_rethrow (concept_errorMessage e)))"

subsection \<open>generateLogoImage\<close>

definition image_invalid_key_message :: string where
  "image_invalid_key_message =
     ''The API key is not valid. Please check your key in the Google Cloud project.''"

definition billing_message :: string where
  "billing_message =
     ''Billing is not enabled for the project. The Imagen API requires a billed account. ''
     @ ''Please enable billing in your Google Cloud account.''"

definition permission_message :: string where
  "permission_message =
     ''API permission denied. Ensure the '' @ [CHR 0x22] @ ''Generative Language API''
     @ [CHR 0x22] @ '' or '' @ [CHR 0x22] @ ''Vertex AI API'' @ [CHR 0x22]
     @ '' is enabled in your Google Cloud project.''"

definition no_image_message :: string where
  "no_image_message =
     ''No image was generated. The response might have been blocked due to safety policies.''"

text \<open>
  A response is its \<open>generatedImages\<close>: undefined, or a list of images, each with
  its \<open>image?.imageBytes\<close> (undefined, or a string). \<open>first_imageBytes\<close> is the
  test both the image call and the serverless handler make on it.
\<close>

type_synonym image_response = "string option list option"

fun first_imageBytes :: "image_response \<Rightarrow> string option" where
  "first_imageBytes None = None"
| "first_imageBytes (Some []) = None"
| "first_imageBytes (Some (None # rest)) = None"
| "first_imageBytes (Some (Some bytes # rest)) = (if bytes \<noteq> [] then Some bytes else None)"

definition image_try :: "thrown + image_response \<Rightarrow> thrown + string" where
  "image_try outcome =
     (case outcome of
        Inl e \<Rightarrow> Inl e
      | Inr response \<Rightarrow>
          (case first_imageBytes response of
             Some bytes \<Rightarrow> Inr bytes
           | None \<Rightarrow> Inl (ErrorInstance no_image_message)))"

definition image_errorMessage :: "thrown \<Rightarrow> string" where
  "image_errorMessage e =
     (case e of
        ErrorInstance m \<Rightarrow> m
      | ObjectWithMessage m \<Rightarrow> m
      | ThrownString s \<Rightarrow> s
      | ThrownOther \<Rightarrow>
          ''An unknown error occurred. Check the developer console for more details.'')"

definition image_rethrow :: "string \<Rightarrow> string" where
  "image_rethrow errorMessage =
     (if str_includes errorMessage ''API key not valid'' then image_invalid_key_message
      else if str_includes (toLowerCase errorMessage) ''billing'' then billing_message
      else if str_includes (toLowerCase errorMessage) ''permission denied''
              \<or> str_includes (toLowerCase errorMessage) ''api not enabled''
           then permission_message
      else if str_includes (toLowerCase errorMessage) ''quota'' then quota_message
      else ''Failed to generate logo: '' @ errorMessage)"

definition generateLogoImage ::
    "string \<Rightarrow> string \<Rightarrow> thrown + image_response \<Rightarrow> string + string" where
  "generateLogoImage prompt_text key outcome =
     (if key = [] then Inl missing_key_message
      else case image_try outcome of
             Inr bytes \<Rightarrow> Inr bytes
           | Inl e \<Rightarrow> Inl (image_rethrow (image_errorMessage e)))"

section \<open>The click handler of the application component\<close>

text \<open>
  \<open>handleGenerateConcept\<close> is a closure made at a render: the \<open>usageCount\<close>,
  \<open>prompt\<close> and \<open>apiKey\<close> it reads are the constants of that render, that is, the
  values of the state when the handler starts. \<open>setUsageCount\<close>, called inside
  \<open>checkAndRecordUsage\<close>, changes the state for the next render and leaves the
  constant of the running closure as it was; so \<open>usageCount\<close> in the \<open>catch\<close> block
  is \<open>usageCount st\<close>, the value before the reservation. The clock is read once by
  the reservation and once more by the \<open>catch\<close> block.
\<close>

definition handleGenerateConcept ::
    "string \<Rightarrow> string \<Rightarrow> thrown + string option \<Rightarrow> app_state \<Rightarrow> app_state" where
  "handleGenerateConcept today_reserve today_revert outcome st =
     (if apiKey st = []
      then st\<lparr>error := Some ''API Key is missing. Please refresh and enter your API key.''\<rparr>
      else case checkAndRecordUsage today_reserve st of
             (False, st1) \<Rightarrow> st1
           | (True, st1) \<Rightarrow>
               (let st2 = st1\<lparr>isLoading := True, error := None, generatedConcept := None\<rparr>
                in case generateLogoConcept (prompt st) (apiKey st) outcome of
                     Inr conceptText \<Rightarrow>
                       st2\<lparr>generatedConcept := Some conceptText, isLoading := False\<rparr>
                   | Inl message \<Rightarrow>
                       (let newCount = usageCount st
                        in st2\<lparr>error := Some message,
                               usageCount := js_minus_one newCount,
                               localStorage :=
                                 Usage today_revert (JSON_roundtrip (js_minus_one newCount)),
                               isLoading := False\<rparr>)))"

text \<open>
  The state in which the user can click: the mount effect has run on the first
  render's state, and a key has been typed into the form (\<open>setApiKey\<close>).
\<close>

definition mounted_state :: "string \<Rightarrow> string \<Rightarrow> slot \<Rightarrow> app_state" where
  "mounted_state today key stored = (loadUsage today (initial_state stored))\<lparr>apiKey := key\<rparr>"

section \<open>The serverless handler\<close>

text \<open>
  The value of a JSON property, as far as its truthiness goes; \<open>None\<close> stands for
  undefined. Arrays and objects are always truthy; of a number only whether it
  is zero matters, so an integer stands for it.
\<close>

datatype jsv = JNull | JBool bool | JNum int | JStr string | JCompound

fun truthy :: "jsv option \<Rightarrow> bool" where
  "truthy None = False"
| "truthy (Some JNull) = False"
| "truthy (Some (JBool b)) = b"
| "truthy (Some (JNum n)) = (n \<noteq> 0)"
| "truthy (Some (JStr s)) = (s \<noteq> [])"
| "truthy (Some JCompound) = True"

text \<open>
  The body of the request, again by what \<open>JSON.parse\<close> and the destructuring
  \<open>const { prompt } = ...\<close> make of it: no body, the empty string, a text on which
  the parser throws (with the message of the SyntaxError), a text that parses to
  null (with the message of the TypeError that destructuring throws), or a text
  that parses to a value with the given \<open>prompt\<close> property.
\<close>

datatype event_body = NoBody | EmptyBody | UnparseableBody string | NullBody string
  | JsonBody "jsv option"

record event =
  httpMethod :: string
  body :: event_body

datatype response_body = ErrorBody string | ImageBody string

record response =
  statusCode :: nat
  resp_body :: response_body
  headers :: "(string \<times> string) list"

definition json_response :: "nat \<Rightarrow> response_body \<Rightarrow> response" where
  "json_response code b =
     \<lparr>statusCode = code, resp_body = b, headers = [(''Content-Type'', ''application/json'')]\<rparr>"

text \<open>\<open>const { prompt } = JSON.parse(event.body || '{}')\<close>\<close>

fun parse_prompt :: "event_body \<Rightarrow> thrown + jsv option" where
  "parse_prompt NoBody = Inr None"
| "parse_prompt EmptyBody = Inr None"
| "parse_prompt (UnparseableBody m) = Inl (ErrorInstance m)"
| "parse_prompt (NullBody m) = Inl (ErrorInstance m)"
| "parse_prompt (JsonBody p) = Inr p"

definition handler_no_image_message :: string where
  "handler_no_image_message =
     ''No image was generated. The API response may have been empty or blocked.''"

definition handler_try :: "thrown + image_response \<Rightarrow> event \<Rightarrow> thrown + response" where
  "handler_try outcome ev =
     (case parse_prompt (body ev) of
        Inl e \<Rightarrow> Inl e
      | Inr p \<Rightarrow>
          if \<not> truthy p then Inr (json_response 400 (ErrorBody ''Prompt is required.''))
          else (case outcome of
                  Inl e \<Rightarrow> Inl e
                | Inr response \<Rightarrow>
                    (case first_imageBytes response of
                       Some bytes \<Rightarrow> Inr (json_response 200 (ImageBody bytes))
                     | None \<Rightarrow> Inl (ErrorInstance handler_no_image_message))))"

text \<open>
  \<open>env_API_KEY\<close> is \<open>process.env.API_KEY\<close>: undefined, or a string; \<open>!apiKey\<close> holds
  of undefined and of the empty string.
\<close>

definition handler :: "string option \<Rightarrow> thrown + image_response \<Rightarrow> event \<Rightarrow> response" where
  "handler env_API_KEY outcome ev =
     (if httpMethod ev \<noteq> ''POST'' then json_response 405 (ErrorBody ''Method Not Allowed'')
      else if env_API_KEY = None \<or> env_API_KEY = Some []
      then json_response 500 (ErrorBody ''API key is not configured on the server.'')
      else case handler_try outcome ev of
             Inr r \<Rightarrow> r
           | Inl e \<Rightarrow>
               json_response 500
                 (ErrorBody (''Failed to generate logo. '' @
                    (case e of
                       ErrorInstance m \<Rightarrow> m
                     | _ \<Rightarrow> ''An unknown error occurred.''))))"

section \<open>Integer counters\<close>

text \<open>On an integer the operators are the arithmetic ones.\<close>

lemma js_ge_int: "js_ge (js_int c) DAILY_LIMIT \<longleftrightarrow> 5 \<le> c"
proof -
  have "(5::rat) \<le> of_int c \<longleftrightarrow> (5::int) \<le> c"
    by (metis of_int_le_iff of_int_numeral)
  then show ?thesis
    by (simp add: js_ge_def js_int_def ToNumber_def DAILY_LIMIT_def)
qed

lemma js_plus_one_int: "js_plus_one (js_int c) = js_int (c + 1)"
  by (simp add: js_plus_one_def js_int_def ToNumber_def num_add_def)

lemma js_minus_one_int: "js_minus_one (js_int c) = js_int (c - 1)"
  by (simp add: js_minus_one_def js_int_def ToNumber_def num_add_def)

lemma JSON_roundtrip_int: "JSON_roundtrip (js_int c) = js_int c"
  by (simp add: JSON_roundtrip_def js_int_def)

lemma js_int_eq_iff: "js_int a = js_int b \<longleftrightarrow> a = b"
  by (simp add: js_int_def)

section \<open>Reservations\<close>

lemma checkAndRecordUsage_absent:
  "localStorage st = Absent \<Longrightarrow>
   checkAndRecordUsage today st
     = (True, st\<lparr>usageCount := js_int 1, localStorage := Usage today (js_int 1)\<rparr>)"
  using js_ge_int [of 0] js_plus_one_int [of 0]
  by (simp add: checkAndRecordUsage_def Let_def JSON_roundtrip_int)

lemma checkAndRecordUsage_today:
  "localStorage st = Usage today (js_int c) \<Longrightarrow>
   checkAndRecordUsage today st =
     (if 5 \<le> c then (False, st\<lparr>error := Some limit_message\<rparr>)
      else (True, st\<lparr>usageCount := js_int (c + 1),
                     localStorage := Usage today (js_int (c + 1))\<rparr>))"
  by (simp add: checkAndRecordUsage_def Let_def js_ge_int js_plus_one_int JSON_roundtrip_int)


text \<open>A rejected reservation only sets the error shown; counter and slot stay.\<close>

lemma checkAndRecordUsage_rejected:
  "fst (checkAndRecordUsage today st) = False \<Longrightarrow>
   snd (checkAndRecordUsage today st) = st\<lparr>error := Some limit_message\<rparr>"
  by (simp add: checkAndRecordUsage_def Let_def split: if_splits)

text \<open>A reservation granted on an integer count never stores more than the limit.\<close>

lemma checkAndRecordUsage_upper:
  assumes "localStorage st = Usage today (js_int c)"
    and "checkAndRecordUsage today st = (True, st')"
  shows "localStorage st' = Usage today (js_int (c + 1)) \<and> c + 1 \<le> 5"
  using assms by (auto simp add: checkAndRecordUsage_today split: if_splits)

text \<open>The \<open>try\<close> block of the reservation throws on exactly two kinds of text.\<close>

lemma stored_count_throws:
  "stored_count today s = Inl e \<longleftrightarrow>
     (s = Unparseable \<and> e = SyntaxError) \<or> (s = JsonNull \<and> e = TypeError)"
  by (cases s) auto

text \<open>
  C1. On a state with no stored record, six reservations on the same day return
  true five times and then false; the stored count after the k-th of the first
  five is k; after the sixth call the stored count and the displayed count are
  still 5, and the sixth call changed nothing but the error shown.
\<close>

theorem fresh_tracker_sixth_reservation_rejected:
  assumes "localStorage st = Absent"
  shows "fst (reservations 6 today st) = [True, True, True, True, True, False]
       \<and> map (\<lambda>k. localStorage (snd (reservations k today st))) [1, 2, 3, 4, 5]
           = map (\<lambda>k. Usage today (js_int k)) [1, 2, 3, 4, 5]
       \<and> localStorage (snd (reservations 6 today st)) = Usage today (js_int 5)
       \<and> usageCount (snd (reservations 6 today st)) = js_int 5
       \<and> snd (reservations 6 today st)
           = (snd (reservations 5 today st))\<lparr>error := Some limit_message\<rparr>"
  using assms
  by (simp add: eval_nat_numeral checkAndRecordUsage_absent checkAndRecordUsage_today)

theorem fresh_tracker_sixth_reservation_rejected_witness:
  "localStorage (initial_state Absent) = Absent
   \<and> fst (reservations 6 ''2025-06-01'' (initial_state Absent))
       = [True, True, True, True, True, False]
   \<and> localStorage (snd (reservations 6 ''2025-06-01'' (initial_state Absent)))
       = Usage ''2025-06-01'' (js_int 5)"
  using fresh_tracker_sixth_reservation_rejected [of "initial_state Absent" "''2025-06-01''"]
  by (simp add: initial_state_def)

text \<open>
  C4. When the stored record carries another date than today, whatever its count,
  the reservation is granted and writes a record of today with count 1.
\<close>

theorem stale_record_counts_as_zero:
  assumes "localStorage st = Usage d v" and "d \<noteq> today"
  shows "checkAndRecordUsage today st
         = (True, st\<lparr>usageCount := js_int 1, localStorage := Usage today (js_int 1)\<rparr>)"
  using assms js_ge_int [of 0] js_plus_one_int [of 0]
  by (simp add: checkAndRecordUsage_def Let_def JSON_roundtrip_int)

theorem stale_record_counts_as_zero_witness:
  "localStorage (initial_state (Usage ''2025-05-31'' (js_int 5))) = Usage ''2025-05-31'' (js_int 5)
   \<and> ''2025-05-31'' \<noteq> ''2025-06-01''
   \<and> checkAndRecordUsage ''2025-06-01'' (initial_state (Usage ''2025-05-31'' (js_int 5)))
       = (True, (initial_state (Usage ''2025-05-31'' (js_int 5)))
                  \<lparr>usageCount := js_int 1, localStorage := Usage ''2025-06-01'' (js_int 1)\<rparr>)"
  using stale_record_counts_as_zero
    [of "initial_state (Usage ''2025-05-31'' (js_int 5))" "''2025-05-31''" "js_int 5"
        "''2025-06-01''"]
  by (simp add: initial_state_def)




section \<open>Reverting a reservation\<close>

text \<open>
  After a granted reservation, a generation that succeeds keeps what the
  reservation wrote; one that fails stores the displayed count of the state in
  which the handler started, less one, under the date read in the \<open>catch\<close> block.
  The slot is not read again.
\<close>

lemma handleGenerateConcept_success_keeps:
  assumes "apiKey st \<noteq> []" and "fst (checkAndRecordUsage t st)"
    and "generateLogoConcept (prompt st) (apiKey st) outcome = Inr conceptText"
  shows "localStorage (handleGenerateConcept t t' outcome st)
           = localStorage (snd (checkAndRecordUsage t st))"
    and "usageCount (handleGenerateConcept t t' outcome st)
           = usageCount (snd (checkAndRecordUsage t st))"
  using assms
  by (cases "checkAndRecordUsage t st"; simp add: handleGenerateConcept_def Let_def)+

lemma handleGenerateConcept_failure_stores:
  assumes "apiKey st \<noteq> []" and "fst (checkAndRecordUsage t st)"
    and "generateLogoConcept (prompt st) (apiKey st) outcome = Inl message"
  shows "localStorage (handleGenerateConcept t t' outcome st)
           = Usage t' (JSON_roundtrip (js_minus_one (usageCount st)))"
    and "usageCount (handleGenerateConcept t t' outcome st) = js_minus_one (usageCount st)"
  using assms
  by (cases "checkAndRecordUsage t st"; simp add: handleGenerateConcept_def Let_def)+

text \<open>
  C2. What the code does on the path reserve, fail, revert: from a state whose
  displayed count agrees with today's stored count \<open>c\<close> (below the limit), the
  reservation is granted and stores \<open>c + 1\<close>, and the \<open>catch\<close> block then stores
  \<open>c - 1\<close>, one less than the count before the reservation, not \<open>c\<close>.
\<close>

theorem failed_generation_writes_count_minus_one:
  assumes "apiKey st \<noteq> []"
    and "localStorage st = Usage today (js_int c)" and "usageCount st = js_int c"
    and "of_int c < DAILY_LIMIT"
    and "generateLogoConcept (prompt st) (apiKey st) outcome = Inl message"
  shows "fst (checkAndRecordUsage today st)
       \<and> localStorage (snd (checkAndRecordUsage today st)) = Usage today (js_int (c + 1))
       \<and> localStorage (handleGenerateConcept today today outcome st)
           = Usage today (js_int (c - 1))
       \<and> usageCount (handleGenerateConcept today today outcome st) = js_int (c - 1)"
proof -
  have "(of_int c :: rat) < of_int 5"
    using assms(4) by (simp add: DAILY_LIMIT_def)
  then have "c < 5"
    by (simp only: of_int_less_iff)
  with assms show ?thesis
    by (simp add: handleGenerateConcept_def checkAndRecordUsage_today js_minus_one_int
          JSON_roundtrip_int)
qed

theorem failed_generation_writes_count_minus_one_witness:
  "localStorage (mounted_state ''2025-06-01'' ''key'' (Usage ''2025-06-01'' (js_int 2)))
     = Usage ''2025-06-01'' (js_int 2)
   \<and> usageCount (mounted_state ''2025-06-01'' ''key'' (Usage ''2025-06-01'' (js_int 2)))
     = js_int 2
   \<and> localStorage
       (handleGenerateConcept ''2025-06-01'' ''2025-06-01'' (Inl (ErrorInstance ''boom''))
          (mounted_state ''2025-06-01'' ''key'' (Usage ''2025-06-01'' (js_int 2))))
     = Usage ''2025-06-01'' (js_int 1)"
  using failed_generation_writes_count_minus_one
    [of "mounted_state ''2025-06-01'' ''key'' (Usage ''2025-06-01'' (js_int 2))"
        "''2025-06-01''" 2 "Inl (ErrorInstance ''boom'')" "concept_rethrow ''boom''"]
  by (simp add: mounted_state_def initial_state_def loadUsage_def DAILY_LIMIT_def
        generateLogoConcept_def concept_try_def concept_errorMessage_def)

text \<open>
  C3. What the code does on a fresh browser (no stored record, displayed count 0)
  once a key is entered: the first generation that fails leaves a record of today
  with count -1 in the slot, below the range from 0 to the limit.
\<close>

theorem first_failed_generation_stores_negative_count:
  "localStorage
     (handleGenerateConcept today today (Inl e) (mounted_state today (k # ks) Absent))
   = Usage today (js_int (- 1))"
  using js_minus_one_int [of 0]
  by (simp add: handleGenerateConcept_def mounted_state_def loadUsage_def initial_state_def
        checkAndRecordUsage_absent generateLogoConcept_def concept_try_def
        JSON_roundtrip_int)

section \<open>The messages thrown by the generation calls\<close>

lemma billing_example_matches:
  "str_includes (toLowerCase ''Billing account not enabled'') ''billing''"
  "\<not> str_includes ''Billing account not enabled'' ''API key not valid''"
  "\<not> str_includes (toLowerCase ''Billing account not enabled'') ''quota''"
  by code_simp+

lemma weird_example_matches:
  "\<not> str_includes ''something weird'' ''API key not valid''"
  "\<not> str_includes (toLowerCase ''something weird'') ''billing''"
  "\<not> str_includes (toLowerCase ''something weird'') ''permission denied''"
  "\<not> str_includes (toLowerCase ''something weird'') ''api not enabled''"
  "\<not> str_includes (toLowerCase ''something weird'') ''quota''"
  by code_simp+

text \<open>
  The text the concept call puts in place of the message of a thrown value that
  is no \<open>Error\<close> matches neither of its two patterns.
\<close>

lemma concept_default_matches:
  "\<not> str_includes ''An unknown error occurred. Check the developer console for details.''
       ''API key not valid''"
  "\<not> str_includes
       (toLowerCase ''An unknown error occurred. Check the developer console for details.'')
       ''quota''"
  by code_simp+

text \<open>
  The message each call extracts from what was thrown: the image call takes it
  from an \<open>Error\<close>, from any other object with a message and from a thrown
  string; the concept call takes it from an \<open>Error\<close> only.
\<close>

lemma image_errorMessage_simps:
  "image_errorMessage (ErrorInstance m) = m"
  "image_errorMessage (ObjectWithMessage m) = m"
  "image_errorMessage (ThrownString m) = m"
  "image_errorMessage ThrownOther
     = ''An unknown error occurred. Check the developer console for more details.''"
  by (simp_all add: image_errorMessage_def)

lemma concept_errorMessage_simps:
  "concept_errorMessage (ErrorInstance m) = m"
  "concept_errorMessage (ObjectWithMessage m)
     = ''An unknown error occurred. Check the developer console for details.''"
  "concept_errorMessage (ThrownString m)
     = ''An unknown error occurred. Check the developer console for details.''"
  "concept_errorMessage ThrownOther
     = ''An unknown error occurred. Check the developer console for details.''"
  by (simp_all add: concept_errorMessage_def)

lemma generateLogoImage_thrown:
  "key \<noteq> [] \<Longrightarrow>
   generateLogoImage p key (Inl e) = Inl (image_rethrow (image_errorMessage e))"
  by (simp add: generateLogoImage_def image_try_def)

lemma generateLogoConcept_thrown:
  "key \<noteq> [] \<Longrightarrow>
   generateLogoConcept p key (Inl e) = Inl (concept_rethrow (concept_errorMessage e))"
  by (simp add: generateLogoConcept_def concept_try_def)

text \<open>None of the messages the concept call throws is the billing message.\<close>

lemma concept_rethrow_not_billing: "concept_rethrow m \<noteq> billing_message"
  by (simp add: concept_rethrow_def billing_message_def concept_invalid_key_message_def
        quota_message_def)

lemma generateLogoConcept_not_billing:
  "generateLogoConcept p key outcome \<noteq> Inl billing_message"
proof (cases "key = []")
  case True
  then show ?thesis
    by (simp add: generateLogoConcept_def missing_key_message_def billing_message_def)
next
  case False
  then show ?thesis
    by (cases "concept_try outcome")
       (simp_all add: generateLogoConcept_def concept_rethrow_not_billing)
qed

text \<open>
  C5, as the code has it. For every value thrown by the provider, the image
  call throws the billing message when the message it extracts contains
  "billing" in any case and not "API key not valid". The concept call never
  throws the billing message, whatever happens: it has no billing rule. For a
  thrown value whose message, as the concept call extracts it, does not contain
  the credential phrase, the concept call goes on to its quota rule and
  otherwise gives the message back behind "Failed to generate concept: ".
\<close>

theorem billing_rule_only_on_image_path:
  "(key \<noteq> [] \<and> str_includes (toLowerCase (image_errorMessage e)) ''billing''
      \<and> \<not> str_includes (image_errorMessage e) ''API key not valid'' \<longrightarrow>
      generateLogoImage p key (Inl e) = Inl billing_message)
 \<and> generateLogoConcept p key outcome \<noteq> Inl billing_message
 \<and> (key \<noteq> [] \<and> \<not> str_includes (concept_errorMessage e) ''API key not valid'' \<longrightarrow>
      generateLogoConcept p key (Inl e)
        = Inl (if str_includes (toLowerCase (concept_errorMessage e)) ''quota''
               then quota_message
               else ''Failed to generate concept: '' @ concept_errorMessage e))"
proof (intro conjI impI)
  assume "key \<noteq> [] \<and> str_includes (toLowerCase (image_errorMessage e)) ''billing''
      \<and> \<not> str_includes (image_errorMessage e) ''API key not valid''"
  then show "generateLogoImage p key (Inl e) = Inl billing_message"
    by (simp add: generateLogoImage_thrown image_rethrow_def)
next
  show "generateLogoConcept p key outcome \<noteq> Inl billing_message"
    by (rule generateLogoConcept_not_billing)
next
  assume "key \<noteq> [] \<and> \<not> str_includes (concept_errorMessage e) ''API key not valid''"
  then show "generateLogoConcept p key (Inl e)
        = Inl (if str_includes (toLowerCase (concept_errorMessage e)) ''quota''
               then quota_message
               else ''Failed to generate concept: '' @ concept_errorMessage e)"
    by (simp add: generateLogoConcept_thrown concept_rethrow_def)
qed

theorem billing_rule_only_on_image_path_witness:
  "generateLogoImage ''a logo'' ''key'' (Inl (ErrorInstance ''Billing account not enabled''))
     = Inl billing_message
   \<and> generateLogoImage ''a logo'' ''key'' (Inl (ThrownString ''Billing account not enabled''))
     = Inl billing_message
   \<and> generateLogoConcept ''a logo'' ''key'' (Inl (ErrorInstance ''Billing account not enabled''))
     = Inl ''Failed to generate concept: Billing account not enabled''
   \<and> generateLogoConcept ''a logo'' ''key'' (Inl (ThrownString ''Billing account not enabled''))
     = Inl (''Failed to generate concept: ''
            @ ''An unknown error occurred. Check the developer console for details.'')"
  using
    billing_rule_only_on_image_path
      [of "''key''" "ErrorInstance ''Billing account not enabled''" "''a logo''"]
    billing_rule_only_on_image_path
      [of "''key''" "ThrownString ''Billing account not enabled''" "''a logo''"]
    billing_example_matches concept_default_matches
  by (simp add: image_errorMessage_simps concept_errorMessage_simps)

text \<open>
  C5 as stated fails on the concept call: "Billing account not enabled" contains
  "billing" and not the credential phrase, and what the concept call throws is
  not the billing message.
\<close>

theorem concept_path_has_no_billing_rule:
  "str_includes (toLowerCase ''Billing account not enabled'') ''billing''
   \<and> \<not> str_includes ''Billing account not enabled'' ''API key not valid''
   \<and> generateLogoConcept ''a logo'' ''key'' (Inl (ErrorInstance ''Billing account not enabled''))
       \<noteq> Inl billing_message"
  by code_simp

text \<open>
  C7, as the code has it. For every value thrown by the provider: when the
  message the image call extracts matches none of its patterns, the image call
  throws "Failed to generate logo: " followed by that message; when the message
  the concept call extracts matches neither of its two patterns (credential,
  quota), the concept call throws "Failed to generate concept: " followed by
  that message. For an \<open>Error\<close> both extract its message, so the raw message is
  kept whole behind the prefix. From a thrown value that is no \<open>Error\<close> the
  concept call extracts a fixed text, and the raw message is lost.
\<close>

theorem unmatched_message_is_prefixed:
  "(key \<noteq> [] \<and> \<not> str_includes (image_errorMessage e) ''API key not valid''
      \<and> \<not> str_includes (toLowerCase (image_errorMessage e)) ''billing''
      \<and> \<not> str_includes (toLowerCase (image_errorMessage e)) ''permission denied''
      \<and> \<not> str_includes (toLowerCase (image_errorMessage e)) ''api not enabled''
      \<and> \<not> str_includes (toLowerCase (image_errorMessage e)) ''quota'' \<longrightarrow>
      generateLogoImage p key (Inl e)
        = Inl (''Failed to generate logo: '' @ image_errorMessage e))
 \<and> (key \<noteq> [] \<and> \<not> str_includes (concept_errorMessage e) ''API key not valid''
      \<and> \<not> str_includes (toLowerCase (concept_errorMessage e)) ''quota'' \<longrightarrow>
      generateLogoConcept p key (Inl e)
        = Inl (''Failed to generate concept: '' @ concept_errorMessage e))
 \<and> image_errorMessage (ErrorInstance m) = m
 \<and> image_errorMessage (ObjectWithMessage m) = m
 \<and> image_errorMessage (ThrownString m) = m
 \<and> concept_errorMessage (ErrorInstance m) = m
 \<and> (key \<noteq> [] \<and> (e = ObjectWithMessage m \<or> e = ThrownString m \<or> e = ThrownOther) \<longrightarrow>
      generateLogoConcept p key (Inl e)
        = Inl (''Failed to generate concept: ''
               @ ''An unknown error occurred. Check the developer console for details.''))"
proof (intro conjI impI)
  assume "key \<noteq> [] \<and> \<not> str_includes (image_errorMessage e) ''API key not valid''
      \<and> \<not> str_includes (toLowerCase (image_errorMessage e)) ''billing''
      \<and> \<not> str_includes (toLowerCase (image_errorMessage e)) ''permission denied''
      \<and> \<not> str_includes (toLowerCase (image_errorMessage e)) ''api not enabled''
      \<and> \<not> str_includes (toLowerCase (image_errorMessage e)) ''quota''"
  then show "generateLogoImage p key (Inl e)
      = Inl (''Failed to generate logo: '' @ image_errorMessage e)"
    by (simp add: generateLogoImage_thrown image_rethrow_def)
next
  assume "key \<noteq> [] \<and> \<not> str_includes (concept_errorMessage e) ''API key not valid''
      \<and> \<not> str_includes (toLowerCase (concept_errorMessage e)) ''quota''"
  then show "generateLogoConcept p key (Inl e)
      = Inl (''Failed to generate concept: '' @ concept_errorMessage e)"
    by (simp add: generateLogoConcept_thrown concept_rethrow_def)
next
  assume a: "key \<noteq> [] \<and> (e = ObjectWithMessage m \<or> e = ThrownString m \<or> e = ThrownOther)"
  then have "concept_errorMessage e
      = ''An unknown error occurred. Check the developer console for details.''"
    by (auto simp add: concept_errorMessage_simps)
  with a show "generateLogoConcept p key (Inl e)
      = Inl (''Failed to generate concept: ''
             @ ''An unknown error occurred. Check the developer console for details.'')"
    using concept_default_matches
    by (simp add: generateLogoConcept_thrown concept_rethrow_def)
qed (simp_all add: image_errorMessage_simps concept_errorMessage_simps)

theorem unmatched_message_is_prefixed_witness:
  "generateLogoImage ''a logo'' ''key'' (Inl (ErrorInstance ''something weird''))
     = Inl ''Failed to generate logo: something weird''
   \<and> generateLogoImage ''a logo'' ''key'' (Inl (ThrownString ''something weird''))
     = Inl ''Failed to generate logo: something weird''
   \<and> generateLogoConcept ''a logo'' ''key'' (Inl (ErrorInstance ''something weird''))
     = Inl ''Failed to generate concept: something weird''
   \<and> generateLogoConcept ''a logo'' ''key'' (Inl (ThrownString ''something weird''))
     = Inl (''Failed to generate concept: ''
            @ ''An unknown error occurred. Check the developer console for details.'')"
  using
    unmatched_message_is_prefixed
      [of "''key''" "ErrorInstance ''something weird''" "''a logo''" "''something weird''"]
    unmatched_message_is_prefixed
      [of "''key''" "ThrownString ''something weird''" "''a logo''" "''something weird''"]
    weird_example_matches
  by (simp add: image_errorMessage_simps concept_errorMessage_simps)

text \<open>
  C7 as stated fails: for "something weird", which matches no pattern, neither
  call throws the raw message itself.
\<close>

theorem unmatched_message_not_verbatim:
  "generateLogoImage ''a logo'' ''key'' (Inl (ErrorInstance ''something weird''))
     \<noteq> Inl ''something weird''
   \<and> generateLogoConcept ''a logo'' ''key'' (Inl (ErrorInstance ''something weird''))
     \<noteq> Inl ''something weird''"
  by code_simp

text \<open>The component shows what the concept call threw.\<close>

lemma handleGenerateConcept_shows_thrown_message:
  assumes "apiKey st \<noteq> []" and "fst (checkAndRecordUsage t st)"
    and "generateLogoConcept (prompt st) (apiKey st) outcome = Inl message"
  shows "error (handleGenerateConcept t t' outcome st) = Some message"
  using assms
  by (cases "checkAndRecordUsage t st") (simp add: handleGenerateConcept_def Let_def)

section \<open>The status codes of the serverless handler\<close>

lemma handler_configured_post:
  "httpMethod ev = ''POST'' \<Longrightarrow> key \<noteq> [] \<Longrightarrow>
   handler (Some key) outcome ev =
     (case handler_try outcome ev of
        Inr r \<Rightarrow> r
      | Inl e \<Rightarrow> json_response 500 (ErrorBody (''Failed to generate logo. '' @
                   (case e of ErrorInstance m \<Rightarrow> m | _ \<Rightarrow> ''An unknown error occurred.''))))"
  by (simp add: handler_def)

lemma handler_unconfigured_post:
  "httpMethod ev = ''POST'' \<Longrightarrow> k = None \<or> k = Some [] \<Longrightarrow>
   handler k outcome ev
     = json_response 500 (ErrorBody ''API key is not configured on the server.'')"
  by (auto simp add: handler_def)

text \<open>
  C9. A request whose method is not POST is answered with 405 and "Method Not
  Allowed", whatever the server's key is (set, empty or undefined), whatever
  the body and whatever the provider would do; it never gets the response of
  the unconfigured server.
\<close>

theorem non_post_is_405:
  assumes "httpMethod ev \<noteq> ''POST''"
  shows "handler env_API_KEY outcome ev = json_response 405 (ErrorBody ''Method Not Allowed'')
       \<and> statusCode (handler env_API_KEY outcome ev) = 405
       \<and> resp_body (handler env_API_KEY outcome ev)
           \<noteq> ErrorBody ''API key is not configured on the server.''"
  using assms by (simp add: handler_def json_response_def)

theorem non_post_is_405_witness:
  "httpMethod \<lparr>httpMethod = ''GET'', body = JsonBody (Some (JStr ''a logo''))\<rparr> \<noteq> ''POST''
   \<and> statusCode (handler None (Inl ThrownOther)
        \<lparr>httpMethod = ''GET'', body = JsonBody (Some (JStr ''a logo''))\<rparr>) = 405"
  using non_post_is_405
    [of "\<lparr>httpMethod = ''GET'', body = JsonBody (Some (JStr ''a logo''))\<rparr>" None "Inl ThrownOther"]
  by (simp add: json_response_def)

text \<open>
  C8, as the code has it. A request that is not a POST gets 405. A POST to a
  server without a key gets 500, whatever its body. With a key configured: a
  POST whose body is absent or empty, or parses to a value other than null
  whose \<open>prompt\<close> property is missing or falsy, gets 400; a POST whose body
  parses to null, or does not parse, gets 500 from the generic \<open>catch\<close> (taking
  \<open>prompt\<close> out of null throws); a POST with a truthy prompt gets 500 when the
  provider's call throws or its response has no image bytes, and 200 with the
  image bytes otherwise. Every request falls under one of these cases.
\<close>

theorem handler_status_contract:
  "(httpMethod ev \<noteq> ''POST'' \<longrightarrow> statusCode (handler k outcome ev) = 405)
 \<and> (httpMethod ev = ''POST'' \<and> (k = None \<or> k = Some []) \<longrightarrow>
      statusCode (handler k outcome ev) = 500)
 \<and> (httpMethod ev = ''POST'' \<and> k = Some key \<and> key \<noteq> []
      \<and> (body ev = NoBody \<or> body ev = EmptyBody \<or> body ev = JsonBody p \<and> \<not> truthy p) \<longrightarrow>
      statusCode (handler k outcome ev) = 400)
 \<and> (httpMethod ev = ''POST'' \<and> k = Some key \<and> key \<noteq> []
      \<and> (body ev = NullBody m \<or> body ev = UnparseableBody m) \<longrightarrow>
      handler k outcome ev = json_response 500 (ErrorBody (''Failed to generate logo. '' @ m))
      \<and> statusCode (handler k outcome ev) = 500)
 \<and> (httpMethod ev = ''POST'' \<and> k = Some key \<and> key \<noteq> [] \<and> body ev = JsonBody p \<and> truthy p
      \<and> (outcome = Inl e \<or> outcome = Inr r \<and> first_imageBytes r = None) \<longrightarrow>
      statusCode (handler k outcome ev) = 500)
 \<and> (httpMethod ev = ''POST'' \<and> k = Some key \<and> key \<noteq> [] \<and> body ev = JsonBody p \<and> truthy p
      \<and> outcome = Inr r \<and> first_imageBytes r = Some bytes \<longrightarrow>
      handler k outcome ev = json_response 200 (ImageBody bytes)
      \<and> statusCode (handler k outcome ev) = 200)"
proof (intro conjI impI)
  assume "httpMethod ev \<noteq> ''POST''"
  then show "statusCode (handler k outcome ev) = 405"
    by (simp add: handler_def json_response_def)
next
  assume "httpMethod ev = ''POST'' \<and> (k = None \<or> k = Some [])"
  then show "statusCode (handler k outcome ev) = 500"
    by (simp add: handler_unconfigured_post json_response_def)
next
  assume "httpMethod ev = ''POST'' \<and> k = Some key \<and> key \<noteq> []
      \<and> (body ev = NoBody \<or> body ev = EmptyBody \<or> body ev = JsonBody p \<and> \<not> truthy p)"
  then show "statusCode (handler k outcome ev) = 400"
    by (auto simp add: handler_configured_post handler_try_def json_response_def)
next
  assume "httpMethod ev = ''POST'' \<and> k = Some key \<and> key \<noteq> []
      \<and> (body ev = NullBody m \<or> body ev = UnparseableBody m)"
  then show "handler k outcome ev
      = json_response 500 (ErrorBody (''Failed to generate logo. '' @ m))"
    by (auto simp add: handler_configured_post handler_try_def)
  then show "statusCode (handler k outcome ev) = 500"
    by (simp add: json_response_def)
next
  assume "httpMethod ev = ''POST'' \<and> k = Some key \<and> key \<noteq> [] \<and> body ev = JsonBody p
      \<and> truthy p \<and> (outcome = Inl e \<or> outcome = Inr r \<and> first_imageBytes r = None)"
  then show "statusCode (handler k outcome ev) = 500"
    by (auto simp add: handler_configured_post handler_try_def json_response_def)
next
  assume "httpMethod ev = ''POST'' \<and> k = Some key \<and> key \<noteq> [] \<and> body ev = JsonBody p
      \<and> truthy p \<and> outcome = Inr r \<and> first_imageBytes r = Some bytes"
  then show "handler k outcome ev = json_response 200 (ImageBody bytes)"
    by (simp add: handler_configured_post handler_try_def)
  then show "statusCode (handler k outcome ev) = 200"
    by (simp add: json_response_def)
qed

theorem handler_status_contract_witness:
  "statusCode (handler (Some ''key'') (Inr (Some [Some ''iVBORw0KGgo='']))
      \<lparr>httpMethod = ''GET'', body = JsonBody (Some (JStr ''a logo''))\<rparr>) = 405
 \<and> statusCode (handler None (Inr (Some [Some ''iVBORw0KGgo='']))
      \<lparr>httpMethod = ''POST'', body = JsonBody (Some (JStr ''a logo''))\<rparr>) = 500
 \<and> statusCode (handler (Some ''key'') (Inr (Some [Some ''iVBORw0KGgo='']))
      \<lparr>httpMethod = ''POST'', body = JsonBody None\<rparr>) = 400
 \<and> statusCode (handler (Some ''key'') (Inr (Some [Some ''iVBORw0KGgo='']))
      \<lparr>httpMethod = ''POST'',
       body = NullBody ''Cannot destructure property of null''\<rparr>) = 500
 \<and> statusCode (handler (Some ''key'') (Inl (ErrorInstance ''boom''))
      \<lparr>httpMethod = ''POST'', body = JsonBody (Some (JStr ''a logo''))\<rparr>) = 500
 \<and> handler (Some ''key'') (Inr (Some [Some ''iVBORw0KGgo='']))
      \<lparr>httpMethod = ''POST'', body = JsonBody (Some (JStr ''a logo''))\<rparr>
     = json_response 200 (ImageBody ''iVBORw0KGgo='')"
  using
    handler_status_contract [where ev = "\<lparr>httpMethod = ''GET'', body = JsonBody (Some (JStr ''a logo''))\<rparr>"
      and k = "Some ''key''" and outcome = "Inr (Some [Some ''iVBORw0KGgo=''])"]
    handler_status_contract [where ev = "\<lparr>httpMethod = ''POST'', body = JsonBody (Some (JStr ''a logo''))\<rparr>"
      and k = None and outcome = "Inr (Some [Some ''iVBORw0KGgo=''])"]
    handler_status_contract [where ev = "\<lparr>httpMethod = ''POST'', body = JsonBody None\<rparr>"
      and k = "Some ''key''" and outcome = "Inr (Some [Some ''iVBORw0KGgo=''])"
      and key = "''key''" and p = None]
    handler_status_contract [where ev = "\<lparr>httpMethod = ''POST'',
        body = NullBody ''Cannot destructure property of null''\<rparr>"
      and k = "Some ''key''" and outcome = "Inr (Some [Some ''iVBORw0KGgo=''])"
      and key = "''key''" and m = "''Cannot destructure property of null''"]
    handler_status_contract [where ev = "\<lparr>httpMethod = ''POST'', body = JsonBody (Some (JStr ''a logo''))\<rparr>"
      and k = "Some ''key''" and outcome = "Inl (ErrorInstance ''boom'')" and key = "''key''"
      and p = "Some (JStr ''a logo'')" and e = "ErrorInstance ''boom''"]
    handler_status_contract [where ev = "\<lparr>httpMethod = ''POST'', body = JsonBody (Some (JStr ''a logo''))\<rparr>"
      and k = "Some ''key''" and outcome = "Inr (Some [Some ''iVBORw0KGgo=''])"
      and key = "''key''" and p = "Some (JStr ''a logo'')"
      and r = "Some [Some ''iVBORw0KGgo='']" and bytes = "''iVBORw0KGgo=''"]
  by (simp add: json_response_def)

text \<open>
  C8 as stated fails in two places. On a server without a key, a POST whose body
  has no \<open>prompt\<close> property is answered with 500, not with 400. With a key
  configured, a POST whose body is the JSON value null, which has no \<open>prompt\<close>
  either, is answered with 500, not with 400.
\<close>

theorem missing_prompt_without_key_is_500:
  "httpMethod \<lparr>httpMethod = ''POST'', body = JsonBody None\<rparr> = ''POST''
   \<and> parse_prompt (body \<lparr>httpMethod = ''POST'', body = JsonBody None\<rparr>) = Inr None
   \<and> statusCode (handler None (Inr (Some [Some ''iVBORw0KGgo='']))
        \<lparr>httpMethod = ''POST'', body = JsonBody None\<rparr>) = 500
   \<and> statusCode (handler None (Inr (Some [Some ''iVBORw0KGgo='']))
        \<lparr>httpMethod = ''POST'', body = JsonBody None\<rparr>) \<noteq> 400
   \<and> statusCode (handler (Some ''key'') (Inr (Some [Some ''iVBORw0KGgo='']))
        \<lparr>httpMethod = ''POST'',
         body = NullBody ''Cannot destructure property of null''\<rparr>) = 500
   \<and> statusCode (handler (Some ''key'') (Inr (Some [Some ''iVBORw0KGgo='']))
        \<lparr>httpMethod = ''POST'',
         body = NullBody ''Cannot destructure property of null''\<rparr>) \<noteq> 400"
  by (simp add: handler_def handler_try_def json_response_def)

text \<open>
  C10, as the code has it. For a POST request: with a key configured, an absent
  or empty body is read as the empty object and answered with 400 and "Prompt
  is required."; a body on which the parser throws is answered with 500
  whatever the key is, and with a key configured the response is the one of the
  generic \<open>catch\<close>, carrying the parser's message.
\<close>

theorem post_body_absent_or_unparseable:
  assumes "httpMethod ev = ''POST''"
  shows "(k = Some key \<and> key \<noteq> [] \<and> (body ev = NoBody \<or> body ev = EmptyBody) \<longrightarrow>
            parse_prompt (body ev) = Inr None
            \<and> handler k outcome ev = json_response 400 (ErrorBody ''Prompt is required.''))
       \<and> (body ev = UnparseableBody m \<longrightarrow> statusCode (handler k outcome ev) = 500)
       \<and> (k = Some key \<and> key \<noteq> [] \<and> body ev = UnparseableBody m \<longrightarrow>
            handler k outcome ev
              = json_response 500 (ErrorBody (''Failed to generate logo. '' @ m)))"
proof (intro conjI impI)
  assume "k = Some key \<and> key \<noteq> [] \<and> (body ev = NoBody \<or> body ev = EmptyBody)"
  with assms show "parse_prompt (body ev) = Inr None"
    and "handler k outcome ev = json_response 400 (ErrorBody ''Prompt is required.'')"
    by (auto simp add: handler_configured_post handler_try_def)
next
  assume b: "body ev = UnparseableBody m"
  show "statusCode (handler k outcome ev) = 500"
  proof (cases "k = None \<or> k = Some []")
    case True
    with assms show ?thesis
      by (simp add: handler_unconfigured_post json_response_def)
  next
    case False
    then obtain key' where "k = Some key'" and "key' \<noteq> []"
      by (cases k) auto
    with assms b show ?thesis
      by (simp add: handler_configured_post handler_try_def json_response_def)
  qed
next
  assume "k = Some key \<and> key \<noteq> [] \<and> body ev = UnparseableBody m"
  with assms show "handler k outcome ev
      = json_response 500 (ErrorBody (''Failed to generate logo. '' @ m))"
    by (simp add: handler_configured_post handler_try_def)
qed

theorem post_body_absent_or_unparseable_witness:
  "handler (Some ''key'') (Inr (Some [Some ''iVBORw0KGgo='']))
      \<lparr>httpMethod = ''POST'', body = NoBody\<rparr>
     = json_response 400 (ErrorBody ''Prompt is required.'')
 \<and> handler (Some ''key'') (Inr (Some [Some ''iVBORw0KGgo='']))
      \<lparr>httpMethod = ''POST'', body = EmptyBody\<rparr>
     = json_response 400 (ErrorBody ''Prompt is required.'')
 \<and> statusCode (handler None (Inr (Some [Some ''iVBORw0KGgo='']))
      \<lparr>httpMethod = ''POST'', body = UnparseableBody ''Unexpected token h in JSON at position 0''\<rparr>)
     = 500
 \<and> handler (Some ''key'') (Inr (Some [Some ''iVBORw0KGgo='']))
      \<lparr>httpMethod = ''POST'', body = UnparseableBody ''Unexpected token h in JSON at position 0''\<rparr>
     = json_response 500
         (ErrorBody ''Failed to generate logo. Unexpected token h in JSON at position 0'')"
  using
    post_body_absent_or_unparseable [of "\<lparr>httpMethod = ''POST'', body = NoBody\<rparr>"
      "Some ''key''" "''key''" "Inr (Some [Some ''iVBORw0KGgo=''])"]
    post_body_absent_or_unparseable [of "\<lparr>httpMethod = ''POST'', body = EmptyBody\<rparr>"
      "Some ''key''" "''key''" "Inr (Some [Some ''iVBORw0KGgo=''])"]
    post_body_absent_or_unparseable [of
      "\<lparr>httpMethod = ''POST'', body = UnparseableBody ''Unexpected token h in JSON at position 0''\<rparr>"
      None _ "Inr (Some [Some ''iVBORw0KGgo=''])" "''Unexpected token h in JSON at position 0''"]
    post_body_absent_or_unparseable [of
      "\<lparr>httpMethod = ''POST'', body = UnparseableBody ''Unexpected token h in JSON at position 0''\<rparr>"
      "Some ''key''" "''key''" "Inr (Some [Some ''iVBORw0KGgo=''])"
      "''Unexpected token h in JSON at position 0''"]
  by simp

text \<open>
  C10 as stated fails on a server without a key: a POST with no body is answered
  with 500 and "API key is not configured on the server.", not with 400.
\<close>

theorem absent_body_without_key_is_500:
  "httpMethod \<lparr>httpMethod = ''POST'', body = NoBody\<rparr> = ''POST''
   \<and> statusCode (handler None (Inr (Some [Some ''iVBORw0KGgo='']))
        \<lparr>httpMethod = ''POST'', body = NoBody\<rparr>) = 500
   \<and> resp_body (handler None (Inr (Some [Some ''iVBORw0KGgo='']))
        \<lparr>httpMethod = ''POST'', body = NoBody\<rparr>)
       = ErrorBody ''API key is not configured on the server.''
   \<and> statusCode (handler None (Inr (Some [Some ''iVBORw0KGgo='']))
        \<lparr>httpMethod = ''POST'', body = NoBody\<rparr>) \<noteq> 400"
  by (simp add: handler_def json_response_def)

end
